theory Spec2Isabelle
  imports Main "HOL-Library.Word" "HOL-Library.Multiset" "HOL-Library.Product_Lexorder"
begin

section \<open>The ideas board: two service variants over one document store\<close>

text \<open>
  The repository holds two FastAPI services over the MongoDB collections
  \<^verbatim>\<open>idea\<close> and \<^verbatim>\<open>comment\<close>: \<^verbatim>\<open>main.py\<close> (here the
  \<^emph>\<open>root\<close> variant, definitions suffixed \<open>_root\<close>) and \<^verbatim>\<open>backend/main.py\<close>
  (the \<^emph>\<open>backend\<close> variant, definitions under the source's names). A collection is the
  list of its documents in natural order; the current time and the identifier the store
  assigns on insertion are inputs of an operation. Timestamps are integers (microseconds),
  Python strings are \<^typ>\<open>string\<close>, a raised exception is the \<open>Inl\<close> of a sum.
\<close>

subsection \<open>Exceptions\<close>

datatype error =
    HTTPException nat string
  | ValueError string
  | TypeError
  | DuplicateKeyError
  | BsonInvalidId
  | RequestValidationError

text \<open>The error kinds of the specification, as the services raise them.\<close>

definition InvalidId :: error where
  "InvalidId = HTTPException 400 ''Invalid idea id''"

definition NotFound :: error where
  "NotFound = HTTPException 404 ''Idea not found''"

text \<open>
  The status FastAPI answers with: an \<^verbatim>\<open>HTTPException\<close> carries its own, a request
  body that fails validation is 422, any other exception leaving a handler is 500.
\<close>

fun status_code :: "error \<Rightarrow> nat" where
  "status_code (HTTPException c d) = c"
| "status_code (ValueError m) = 500"
| "status_code TypeError = 500"
| "status_code DuplicateKeyError = 500"
| "status_code BsonInvalidId = 500"
| "status_code RequestValidationError = 422"

subsection \<open>bson.ObjectId\<close>

text \<open>
  An ObjectId is twelve bytes. \<^verbatim>\<open>ObjectId(s)\<close> on a \<^verbatim>\<open>str\<close> accepts 24
  hexadecimal digits of either case and raises \<^verbatim>\<open>bson.errors.InvalidId\<close> otherwise
  (\<open>None\<close>);
  \<^verbatim>\<open>str(oid)\<close> is the 24 lower-case digits.
\<close>

type_synonym oid = "96 word"

definition hex_char :: "nat \<Rightarrow> char" where
  "hex_char d = ''0123456789abcdef'' ! d"

definition hex_val :: "char \<Rightarrow> nat option" where
  "hex_val c =
     (let n = (of_char c :: nat) in
      if 48 \<le> n \<and> n \<le> 57 then Some (n - 48)
      else if 97 \<le> n \<and> n \<le> 102 then Some (n - 87)
      else if 65 \<le> n \<and> n \<le> 70 then Some (n - 55)
      else None)"

primrec hexlify :: "nat \<Rightarrow> nat \<Rightarrow> string" where
  "hexlify 0 n = []"
| "hexlify (Suc k) n = hexlify k (n div 16) @ [hex_char (n mod 16)]"

primrec fromhex :: "nat \<Rightarrow> string \<Rightarrow> nat option" where
  "fromhex a [] = Some a"
| "fromhex a (c # cs) =
     (case hex_val c of None \<Rightarrow> None | Some d \<Rightarrow> fromhex (16 * a + d) cs)"

definition str_oid :: "oid \<Rightarrow> string" where
  "str_oid w = hexlify 24 (unat w)"

definition ObjectId :: "string \<Rightarrow> oid option" where
  "ObjectId s =
     (if length s = 24 then map_option word_of_nat (fromhex 0 s) else None)"

subsection \<open>Documents, collections and the pymongo operations the services call\<close>

type_synonym datetime = int

definition timedelta_days :: "int \<Rightarrow> int" where
  "timedelta_days n = n * 86400000000"

record idea_doc =
  i_id :: oid
  i_title :: string
  i_description :: "string option"
  i_votes :: int
  i_created_at :: datetime
  i_updated_at :: datetime

record comment_doc =
  c_id :: oid
  c_idea_id :: string
  c_author :: "string option"
  c_content :: string
  c_created_at :: datetime
  c_updated_at :: datetime

record db =
  idea :: "idea_doc list"
  comment :: "comment_doc list"

text \<open>\<^verbatim>\<open>find(filter)\<close>: the matching documents, in natural order.\<close>

definition find_docs :: "('a \<Rightarrow> bool) \<Rightarrow> 'a list \<Rightarrow> 'a list" where
  "find_docs p col = filter p col"

text \<open>\<^verbatim>\<open>find_one(filter)\<close>: the first match, or \<^verbatim>\<open>None\<close>.\<close>

definition find_one :: "('a \<Rightarrow> bool) \<Rightarrow> 'a list \<Rightarrow> 'a option" where
  "find_one p col = List.find p col"

text \<open>
  \<^verbatim>\<open>insert_one(doc)\<close>: the store keeps \<^verbatim>\<open>_id\<close> unique and raises
  \<^verbatim>\<open>DuplicateKeyError\<close> for an identifier it already holds.
\<close>

definition insert_one :: "('a \<Rightarrow> oid) \<Rightarrow> 'a \<Rightarrow> 'a list \<Rightarrow> error + 'a list" where
  "insert_one key doc col =
     (if key doc \<in> set (map key col) then Inl DuplicateKeyError else Inr (col @ [doc]))"

text \<open>
  \<^verbatim>\<open>find_one_and_update(filter, update, return_document=True)\<close>: the first match is
  updated in place and returned as it is after the update.
\<close>

fun find_one_and_update :: "('a \<Rightarrow> bool) \<Rightarrow> ('a \<Rightarrow> 'a) \<Rightarrow> 'a list \<Rightarrow> 'a option \<times> 'a list" where
  "find_one_and_update p u [] = (None, [])"
| "find_one_and_update p u (d # ds) =
     (if p d then (Some (u d), u d # ds)
      else (case find_one_and_update p u ds of (r, ds') \<Rightarrow> (r, d # ds')))"

definition count_documents :: "('a \<Rightarrow> bool) \<Rightarrow> 'a list \<Rightarrow> int" where
  "count_documents p col = int (length (filter p col))"


text \<open>
  The aggregation of both \<^verbatim>\<open>list_ideas\<close>: \<^verbatim>\<open>$match\<close> the comments whose
  \<^verbatim>\<open>idea_id\<close> is one of the given strings, \<^verbatim>\<open>$group\<close> them by \<^verbatim>\<open>idea_id\<close>
  and \<^verbatim>\<open>$sum\<close> one per comment: a row \<open>(idea_id, count)\<close> per group.
\<close>

definition aggregate :: "string list \<Rightarrow> comment_doc list \<Rightarrow> (string \<times> int) list" where
  "aggregate ids col =
     (let matched = filter (\<lambda>c. c_idea_id c \<in> set ids) col
      in map (\<lambda>k. (k, int (length (filter (\<lambda>c. c_idea_id c = k) matched))))
           (remdups (map c_idea_id matched)))"

subsection \<open>Python built-ins\<close>

text \<open>
  \<^verbatim>\<open>list.sort(key=..., reverse=True)\<close>: a stable sort in descending order, elements
  with equal keys keeping their order.
\<close>

definition py_sort_reverse :: "('a \<Rightarrow> 'k::linorder) \<Rightarrow> 'a list \<Rightarrow> 'a list" where
  "py_sort_reverse key xs = rev (sort_key key (rev xs))"

text \<open>
  \<^verbatim>\<open>str.strip()\<close>: the characters of a \<^typ>\<open>string\<close> stand for the code points below
  256, of which these are white space.
\<close>

definition isspace :: "char \<Rightarrow> bool" where
  "isspace c =
     (let n = (of_char c :: nat)
      in (9 \<le> n \<and> n \<le> 13) \<or> (28 \<le> n \<and> n \<le> 32) \<or> n = 133 \<or> n = 160)"

definition strip :: "string \<Rightarrow> string" where
  "strip s = rev (dropWhile isspace (rev (dropWhile isspace s)))"

subsection \<open>Serialised documents and response models\<close>

text \<open>
  The dictionary a document is serialised to: \<^verbatim>\<open>_id\<close> becomes the string \<^verbatim>\<open>id\<close>; the
  key \<^verbatim>\<open>comments_count\<close> is there once a handler has set it (\<open>None\<close>: no such key).
  The root variant's \<^verbatim>\<open>serialize_doc\<close> also writes each timestamp in ISO format, which
  is kept here as the timestamp itself.
\<close>

record idea_dict =
  d_id :: string
  d_title :: string
  d_description :: "string option"
  d_votes :: int
  d_created_at :: datetime
  d_updated_at :: datetime
  d_comments_count :: "int option"

record comment_dict =
  cd_id :: string
  cd_idea_id :: string
  cd_author :: "string option"
  cd_content :: string
  cd_created_at :: datetime
  cd_updated_at :: datetime

definition serialize_id :: "idea_doc \<Rightarrow> idea_dict" where
  "serialize_id doc =
     \<lparr>d_id = str_oid (i_id doc), d_title = i_title doc, d_description = i_description doc,
      d_votes = i_votes doc, d_created_at = i_created_at doc, d_updated_at = i_updated_at doc,
      d_comments_count = None\<rparr>"

definition serialize_comment :: "comment_doc \<Rightarrow> comment_dict" where
  "serialize_comment doc =
     \<lparr>cd_id = str_oid (c_id doc), cd_idea_id = c_idea_id doc, cd_author = c_author doc,
      cd_content = c_content doc, cd_created_at = c_created_at doc,
      cd_updated_at = c_updated_at doc\<rparr>"

text \<open>\<^verbatim>\<open>IdeaOut(**d)\<close>: \<^verbatim>\<open>comments_count\<close> defaults to 0.\<close>

record IdeaOut =
  o_id :: string
  o_title :: string
  o_description :: "string option"
  o_votes :: int
  o_created_at :: datetime
  o_updated_at :: datetime
  o_comments_count :: int

definition IdeaOut :: "idea_dict \<Rightarrow> IdeaOut" where
  "IdeaOut d =
     \<lparr>o_id = d_id d, o_title = d_title d, o_description = d_description d,
      o_votes = d_votes d, o_created_at = d_created_at d, o_updated_at = d_updated_at d,
      o_comments_count = (case d_comments_count d of None \<Rightarrow> 0 | Some n \<Rightarrow> n)\<rparr>"

text \<open>\<^verbatim>\<open>CommentOut(**d)\<close> has the keys of the serialised comment.\<close>

type_synonym CommentOut = comment_dict

text \<open>\<^verbatim>\<open>d.get(key, 0)\<close> on a key that may be missing.\<close>

definition get_or_0 :: "int option \<Rightarrow> int" where
  "get_or_0 v = (case v of None \<Rightarrow> 0 | Some n \<Rightarrow> n)"


subsection \<open>The backend variant (backend/main.py)\<close>

text \<open>
  The request models. FastAPI builds the model from the request body before it calls the
  handler and answers 422 when a field breaks its bounds.
\<close>

record IdeaCreate =
  ic_title :: string
  ic_description :: "string option"

record CommentCreate =
  cc_author :: "string option"
  cc_content :: string

definition validate_IdeaCreate :: "string \<Rightarrow> string option \<Rightarrow> error + IdeaCreate" where
  "validate_IdeaCreate t d =
     (if 1 \<le> length t \<and> length t \<le> 200
         \<and> (case d of None \<Rightarrow> True | Some x \<Rightarrow> length x \<le> 2000)
      then Inr \<lparr>ic_title = t, ic_description = d\<rparr>
      else Inl RequestValidationError)"

definition validate_CommentCreate :: "string option \<Rightarrow> string \<Rightarrow> error + CommentCreate" where
  "validate_CommentCreate a c =
     (if (case a of None \<Rightarrow> True | Some x \<Rightarrow> length x \<le> 100)
         \<and> 1 \<le> length c \<and> length c \<le> 2000
      then Inr \<lparr>cc_author = a, cc_content = c\<rparr>
      else Inl RequestValidationError)"

definition PyObjectId_validate :: "string \<Rightarrow> error + oid" where
  "PyObjectId_validate v =
     (case ObjectId v of
        None \<Rightarrow> Inl (ValueError ''Invalid ObjectId'')
      | Some x \<Rightarrow> Inr x)"

text \<open>
  \<^verbatim>\<open>payload.description.strip() if payload.description else None\<close>, and the same for
  the author of a comment: the empty string is falsy.
\<close>

definition strip_if_any :: "string option \<Rightarrow> string option" where
  "strip_if_any v =
     (case v of None \<Rightarrow> None | Some x \<Rightarrow> if x = [] then None else Some (strip x))"

text \<open>
  \<^verbatim>\<open>create_idea\<close>; \<open>now\<close> is \<^verbatim>\<open>datetime.utcnow()\<close> and \<open>new_id\<close> the identifier
  \<^verbatim>\<open>insert_one\<close> assigns. \<^verbatim>\<open>serialize_id\<close> returns a missing document as it is,
  on which \<^verbatim>\<open>IdeaOut(**None)\<close> is a \<^verbatim>\<open>TypeError\<close>.
\<close>

definition create_idea :: "datetime \<Rightarrow> oid \<Rightarrow> IdeaCreate \<Rightarrow> db \<Rightarrow> (error + IdeaOut) \<times> db" where
  "create_idea now new_id payload s =
     (let doc = \<lparr>i_id = new_id, i_title = strip (ic_title payload),
                 i_description = strip_if_any (ic_description payload),
                 i_votes = 0, i_created_at = now, i_updated_at = now\<rparr>
      in case insert_one i_id doc (idea s) of
           Inl e \<Rightarrow> (Inl e, s)
         | Inr ideas' \<Rightarrow>
             (case find_one (\<lambda>i. i_id i = new_id) ideas' of
                None \<Rightarrow> (Inl TypeError, s\<lparr>idea := ideas'\<rparr>)
              | Some saved \<Rightarrow>
                  (Inr (IdeaOut ((serialize_id saved)\<lparr>d_comments_count := Some 0\<rparr>)),
                   s\<lparr>idea := ideas'\<rparr>)))"

text \<open>\<^verbatim>\<open>POST /ideas\<close>: the request body is validated, then the handler runs.\<close>

definition post_ideas :: "datetime \<Rightarrow> oid \<Rightarrow> string \<Rightarrow> string option \<Rightarrow> db \<Rightarrow> (error + IdeaOut) \<times> db" where
  "post_ideas now new_id t d s =
     (case validate_IdeaCreate t d of
        Inl e \<Rightarrow> (Inl e, s)
      | Inr payload \<Rightarrow> create_idea now new_id payload s)"

text \<open>The query parameters of \<^verbatim>\<open>list_ideas\<close>, each a \<^verbatim>\<open>Literal\<close>.\<close>

datatype range_lit = Range_all | Range_month | Range_week

datatype sort_lit = Sort_votes | Sort_comments

definition list_ideas :: "datetime \<Rightarrow> range_lit \<Rightarrow> sort_lit \<Rightarrow> db \<Rightarrow> IdeaOut list" where
  "list_ideas now rng srt s =
     (let ideas =
            (if rng \<noteq> Range_all
             then (let start = (if rng = Range_month then now - timedelta_days 30
                                else now - timedelta_days 7)
                   in find_docs (\<lambda>i. start \<le> i_created_at i) (idea s))
             else find_docs (\<lambda>i. True) (idea s));
          idea_ids = map i_id ideas;
          counts0 = fold (\<lambda>iid m. m(iid \<mapsto> 0)) idea_ids Map.empty;
          counts =
            (if idea_ids \<noteq> []
             then fold (\<lambda>row m. case ObjectId (fst row) of
                                  None \<Rightarrow> m
                                | Some x \<Rightarrow> m(x \<mapsto> snd row))
                    (aggregate (map str_oid idea_ids) (comment s)) counts0
             else counts0);
          items = map (\<lambda>i. (serialize_id i)\<lparr>d_comments_count := Some (get_or_0 (counts (i_id i)))\<rparr>)
                    ideas;
          sorted_items =
            (if srt = Sort_votes
             then py_sort_reverse (\<lambda>x. (d_votes x, d_created_at x)) items
             else py_sort_reverse (\<lambda>x. (get_or_0 (d_comments_count x), d_created_at x)) items)
      in map IdeaOut sorted_items)"

definition upvote_idea :: "datetime \<Rightarrow> string \<Rightarrow> db \<Rightarrow> (error + IdeaOut) \<times> db" where
  "upvote_idea now idea_id s =
     (case PyObjectId_validate idea_id of
        Inl e \<Rightarrow> (Inl e, s)
      | Inr x \<Rightarrow>
          (case find_one_and_update (\<lambda>i. i_id i = x)
                  (\<lambda>i. i\<lparr>i_votes := i_votes i + 1, i_updated_at := now\<rparr>) (idea s) of
             (None, ideas') \<Rightarrow> (Inl (HTTPException 404 ''Idea not found''), s)
           | (Some res, ideas') \<Rightarrow>
               (Inr (IdeaOut ((serialize_id res)
                       \<lparr>d_comments_count :=
                          Some (count_documents (\<lambda>c. c_idea_id c = idea_id) (comment s))\<rparr>)),
                s\<lparr>idea := ideas'\<rparr>)))"


definition add_comment :: "datetime \<Rightarrow> oid \<Rightarrow> string \<Rightarrow> CommentCreate \<Rightarrow> db \<Rightarrow> (error + CommentOut) \<times> db" where
  "add_comment now new_id idea_id payload s =
     (case PyObjectId_validate idea_id of
        Inl e \<Rightarrow> (Inl e, s)
      | Inr x \<Rightarrow>
          (case find_one (\<lambda>i. i_id i = x) (idea s) of
             None \<Rightarrow> (Inl (HTTPException 404 ''Idea not found''), s)
           | Some found \<Rightarrow>
               (let doc = \<lparr>c_id = new_id, c_idea_id = idea_id,
                           c_author = strip_if_any (cc_author payload),
                           c_content = strip (cc_content payload),
                           c_created_at = now, c_updated_at = now\<rparr>
                in case insert_one c_id doc (comment s) of
                     Inl e \<Rightarrow> (Inl e, s)
                   | Inr comments' \<Rightarrow>
                       (case find_one (\<lambda>c. c_id c = new_id) comments' of
                          None \<Rightarrow> (Inl TypeError, s\<lparr>comment := comments'\<rparr>)
                        | Some saved \<Rightarrow> (Inr (serialize_comment saved), s\<lparr>comment := comments'\<rparr>)))))"


subsection \<open>The root variant (main.py)\<close>

text \<open>
  \<^verbatim>\<open>serialize_doc\<close> does to a document what \<^verbatim>\<open>serialize_id\<close> does.
\<close>

definition serialize_doc :: "idea_doc \<Rightarrow> idea_dict" where
  "serialize_doc doc = serialize_id doc"

text \<open>
  Modelled from the spec: the root variant imports \<^verbatim>\<open>create_document\<close> from a
  \<^verbatim>\<open>database\<close> module that is not among the sources (the one of
  \<^verbatim>\<open>backend/database.py\<close> returns the stored document, the root handlers use the
  result as the new identifier's string). As the specification has it, creation sets both
  timestamps to the current time and persists the record under the identifier the store
  assigns; \<open>mk\<close> builds the document from the identifier and the two timestamps.
\<close>

definition create_document_root ::
  "datetime \<Rightarrow> oid \<Rightarrow> (oid \<Rightarrow> datetime \<Rightarrow> datetime \<Rightarrow> 'a) \<Rightarrow> ('a \<Rightarrow> oid) \<Rightarrow> 'a list \<Rightarrow> error + string \<times> 'a list" where
  "create_document_root now new_id mk key col =
     (case insert_one key (mk new_id now now) col of
        Inl e \<Rightarrow> Inl e
      | Inr col' \<Rightarrow> Inr (str_oid new_id, col'))"

text \<open>
  \<^verbatim>\<open>create_idea\<close>: neither \<^verbatim>\<open>CreateIdeaRequest\<close> nor the \<^verbatim>\<open>Idea\<close> schema of
  \<^verbatim>\<open>schemas.py\<close> bounds the title or the description, so every body with a title is
  accepted.
\<close>

definition create_idea_root :: "datetime \<Rightarrow> oid \<Rightarrow> string \<Rightarrow> string option \<Rightarrow> db \<Rightarrow> (error + idea_dict) \<times> db" where
  "create_idea_root now new_id t d s =
     (case create_document_root now new_id
             (\<lambda>k c u. \<lparr>i_id = k, i_title = t, i_description = d, i_votes = 0,
                        i_created_at = c, i_updated_at = u\<rparr>) i_id (idea s) of
        Inl e \<Rightarrow> (Inl e, s)
      | Inr (new_id_str, ideas') \<Rightarrow>
          (case ObjectId new_id_str of
             None \<Rightarrow> (Inl BsonInvalidId, s\<lparr>idea := ideas'\<rparr>)
           | Some x \<Rightarrow>
               (case find_one (\<lambda>i. i_id i = x) ideas' of
                  None \<Rightarrow> (Inl TypeError, s\<lparr>idea := ideas'\<rparr>)
                | Some doc \<Rightarrow> (Inr (serialize_doc doc), s\<lparr>idea := ideas'\<rparr>))))"

definition list_ideas_root :: "datetime \<Rightarrow> string \<Rightarrow> string \<Rightarrow> db \<Rightarrow> idea_dict list" where
  "list_ideas_root now rng srt s =
     (let ideas =
            (if rng = ''week''
             then find_docs (\<lambda>i. now - timedelta_days 7 \<le> i_created_at i) (idea s)
             else if rng = ''month''
             then find_docs (\<lambda>i. now - timedelta_days 30 \<le> i_created_at i) (idea s)
             else find_docs (\<lambda>i. True) (idea s));
          idea_ids = map i_id ideas;
          counts =
            (if idea_ids \<noteq> []
             then fold (\<lambda>row m. m(fst row \<mapsto> snd row))
                    (aggregate (map str_oid idea_ids) (comment s)) Map.empty
             else Map.empty);
          enriched = map (\<lambda>i. let d = serialize_doc i
                               in d\<lparr>d_comments_count := Some (get_or_0 (counts (d_id d)))\<rparr>)
                       ideas
      in if srt = ''comments''
         then py_sort_reverse (\<lambda>x. get_or_0 (d_comments_count x)) enriched
         else py_sort_reverse d_votes enriched)"

definition upvote_idea_root :: "datetime \<Rightarrow> string \<Rightarrow> db \<Rightarrow> (error + idea_dict) \<times> db" where
  "upvote_idea_root now idea_id s =
     (case ObjectId idea_id of
        None \<Rightarrow> (Inl (HTTPException 400 ''Invalid idea id''), s)
      | Some x \<Rightarrow>
          (case find_one_and_update (\<lambda>i. i_id i = x)
                  (\<lambda>i. i\<lparr>i_votes := i_votes i + 1, i_updated_at := now\<rparr>) (idea s) of
             (None, ideas') \<Rightarrow> (Inl (HTTPException 404 ''Idea not found''), s)
           | (Some res, ideas') \<Rightarrow> (Inr (serialize_doc res), s\<lparr>idea := ideas'\<rparr>)))"


definition add_comment_root :: "datetime \<Rightarrow> oid \<Rightarrow> string \<Rightarrow> string option \<Rightarrow> string \<Rightarrow> db \<Rightarrow> (error + comment_dict) \<times> db" where
  "add_comment_root now new_id idea_id a c s =
     (case ObjectId idea_id of
        None \<Rightarrow> (Inl (HTTPException 400 ''Invalid idea id''), s)
      | Some x \<Rightarrow>
          (case find_one (\<lambda>i. i_id i = x) (idea s) of
             None \<Rightarrow> (Inl (HTTPException 404 ''Idea not found''), s)
           | Some found \<Rightarrow>
               (case create_document_root now new_id
                       (\<lambda>k cr u. \<lparr>c_id = k, c_idea_id = idea_id, c_author = a, c_content = c,
                                   c_created_at = cr, c_updated_at = u\<rparr>) c_id (comment s) of
                  Inl e \<Rightarrow> (Inl e, s)
                | Inr (new_id_str, comments') \<Rightarrow>
                    (case ObjectId new_id_str of
                       None \<Rightarrow> (Inl BsonInvalidId, s\<lparr>comment := comments'\<rparr>)
                     | Some y \<Rightarrow>
                         (case find_one (\<lambda>k. c_id k = y) comments' of
                            None \<Rightarrow> (Inl TypeError, s\<lparr>comment := comments'\<rparr>)
                          | Some doc \<Rightarrow>
                              (Inr (serialize_comment doc), s\<lparr>comment := comments'\<rparr>))))))"


section \<open>Properties\<close>

subsection \<open>ObjectId and its string\<close>

lemma hex_val_hex_char:
  assumes "d < 16"
  shows "hex_val (hex_char d) = Some d"
proof -
  from assms have "d = 0 \<or> d = 1 \<or> d = 2 \<or> d = 3 \<or> d = 4 \<or> d = 5 \<or> d = 6 \<or> d = 7
      \<or> d = 8 \<or> d = 9 \<or> d = 10 \<or> d = 11 \<or> d = 12 \<or> d = 13 \<or> d = 14 \<or> d = 15"
    by arith
  then show ?thesis
    by (elim disjE) (simp_all add: hex_val_def hex_char_def)
qed


lemma length_hexlify: "length (hexlify k n) = k"
  by (induction k arbitrary: n) auto

lemma fromhex_append:
  "fromhex a (xs @ ys) = (case fromhex a xs of None \<Rightarrow> None | Some b \<Rightarrow> fromhex b ys)"
  by (induction xs arbitrary: a) (auto split: option.splits)

lemma fromhex_hexlify: "fromhex a (hexlify k n) = Some (a * 16 ^ k + n mod 16 ^ k)"
proof (induction k arbitrary: n)
  case 0
  show ?case by simp
next
  case (Suc k)
  have "n mod (16 * 16 ^ k) = 16 * ((n div 16) mod 16 ^ k) + n mod 16"
    by (simp add: mod_mult2_eq)
  then show ?case
    by (simp add: fromhex_append Suc hex_val_hex_char algebra_simps)
qed

lemma ObjectId_str_oid: "ObjectId (str_oid w) = Some w"
proof -
  have "unat w < 2 ^ 96"
    using unsigned_less [of w] by simp
  then have "unat w mod 16 ^ 24 = unat w"
    by simp
  then show ?thesis
    by (simp add: ObjectId_def str_oid_def length_hexlify fromhex_hexlify)
qed

lemma str_oid_inject: "str_oid v = str_oid w \<longleftrightarrow> v = w"
  by (metis ObjectId_str_oid option.inject)

subsection \<open>Helpers: strings and the store\<close>

lemma strip_all_space: "\<forall>c \<in> set t. isspace c \<Longrightarrow> strip t = []"
  by (auto simp: strip_def dest: set_dropWhileD)

lemma find_one_fresh:
  "k \<notin> key ` set col \<Longrightarrow> key doc = k \<Longrightarrow> find_one (\<lambda>i. key i = k) (col @ [doc]) = Some doc"
  by (induction col) (auto simp: find_one_def)

lemma create_idea_fresh:
  assumes "new_id \<notin> i_id ` set (idea s)"
  shows "create_idea now new_id payload s =
    (let doc = \<lparr>i_id = new_id, i_title = strip (ic_title payload),
                 i_description = strip_if_any (ic_description payload),
                 i_votes = 0, i_created_at = now, i_updated_at = now\<rparr>
     in (Inr (IdeaOut ((serialize_id doc)\<lparr>d_comments_count := Some 0\<rparr>)),
         s\<lparr>idea := idea s @ [doc]\<rparr>))"
  using assms by (simp add: create_idea_def insert_one_def Let_def find_one_fresh)

lemma find_one_None_iff: "find_one p col = None \<longleftrightarrow> (\<forall>x \<in> set col. \<not> p x)"
  by (auto simp: find_one_def find_None_iff)

lemma find_one_absent: "k \<notin> key ` set col \<Longrightarrow> find_one (\<lambda>i. key i = k) col = None"
  by (auto simp: find_one_None_iff)

lemma create_idea_root_fresh:
  assumes "new_id \<notin> i_id ` set (idea s)"
  shows "create_idea_root now new_id t d s =
    (let doc = \<lparr>i_id = new_id, i_title = t, i_description = d, i_votes = 0,
                 i_created_at = now, i_updated_at = now\<rparr>
     in (Inr (serialize_doc doc), s\<lparr>idea := idea s @ [doc]\<rparr>))"
  using assms
  by (simp add: create_idea_root_def create_document_root_def insert_one_def Let_def
      ObjectId_str_oid find_one_fresh)

subsection \<open>Helpers: sorting\<close>

lemma mset_py_sort_reverse: "mset (py_sort_reverse key xs) = mset xs"
  by (simp add: py_sort_reverse_def)

lemma set_py_sort_reverse: "set (py_sort_reverse key xs) = set xs"
  by (simp add: py_sort_reverse_def)

lemma sorted_wrt_rev_sort_key: "sorted_wrt (\<lambda>a b. key b \<le> key a) (rev (sort_key key xs))"
proof -
  have "sorted (map key (sort_key key xs))"
    by simp
  then have "sorted_wrt (\<lambda>a b. key a \<le> key b) (sort_key key xs)"
    by (simp add: sorted_map)
  then show ?thesis
    by (simp add: sorted_wrt_rev)
qed

lemma sorted_py_sort_reverse: "sorted_wrt (\<lambda>a b. key b \<le> key a) (py_sort_reverse key xs)"
  unfolding py_sort_reverse_def by (rule sorted_wrt_rev_sort_key)

lemma py_sort_reverse_stable:
  "filter (\<lambda>x. key x = k) (py_sort_reverse key xs) = filter (\<lambda>x. key x = k) xs"
proof -
  have "filter (\<lambda>x. key x = k) (py_sort_reverse key xs)
      = rev (filter (\<lambda>x. key x = k) (sort_key key (rev xs)))"
    by (simp add: py_sort_reverse_def rev_filter)
  also have "\<dots> = rev (filter (\<lambda>x. key x = k) (rev xs))"
    by (simp only: sort_key_stable)
  also have "\<dots> = filter (\<lambda>x. key x = k) xs"
    by (simp add: rev_filter)
  finally show ?thesis .
qed



subsection \<open>Helpers: the comment counts and the shape of the listing\<close>

lemma map_of_aggregate:
  "map_of (aggregate ids col) k =
     (if k \<in> set ids \<and> (\<exists>c \<in> set col. c_idea_id c = k)
      then Some (int (length (filter (\<lambda>c. c_idea_id c = k) col))) else None)"
proof -
  let ?m = "filter (\<lambda>c. c_idea_id c \<in> set ids) col"
  have in_keys: "k \<in> set (remdups (map c_idea_id ?m)) \<longleftrightarrow>
      k \<in> set ids \<and> (\<exists>c \<in> set col. c_idea_id c = k)"
    by auto
  have same: "k \<in> set ids \<Longrightarrow> filter (\<lambda>c. c_idea_id c = k) ?m = filter (\<lambda>c. c_idea_id c = k) col"
    by (induction col) auto
  have "map_of (aggregate ids col) k =
      (if k \<in> set (remdups (map c_idea_id ?m))
       then Some (int (length (filter (\<lambda>c. c_idea_id c = k) ?m))) else None)"
    unfolding aggregate_def Let_def
    by (simp only: map_of_map_restrict restrict_map_def o_def)
  then show ?thesis
    using in_keys same by auto
qed

lemma distinct_aggregate: "distinct (map fst (aggregate ids col))"
  by (simp add: aggregate_def Let_def o_def)

lemma fst_aggregate: "r \<in> set (aggregate ids col) \<Longrightarrow> fst r \<in> set ids"
  by (auto simp: aggregate_def Let_def)

lemma fold_counts_root:
  "distinct (map fst (rows :: (string \<times> int) list)) \<Longrightarrow>
   fold (\<lambda>row m. m(fst row \<mapsto> snd row)) rows m0 k =
     (case map_of rows k of None \<Rightarrow> m0 k | Some n \<Rightarrow> Some n)"
proof (induction rows arbitrary: m0)
  case Nil
  show ?case by simp
next
  case (Cons r rows)
  let ?f = "\<lambda>row m. m(fst row \<mapsto> snd (row :: string \<times> int))"
  from Cons.prems have d: "distinct (map fst rows)" and nin: "fst r \<notin> fst ` set rows"
    by auto
  from nin have none: "map_of rows (fst r) = None"
    by (simp add: map_of_eq_None_iff)
  have "fold ?f (r # rows) m0 k = fold ?f rows (m0(fst r \<mapsto> snd r)) k"
    by simp
  also have "\<dots> = (case map_of rows k of None \<Rightarrow> (m0(fst r \<mapsto> snd r)) k | Some n \<Rightarrow> Some n)"
    by (rule Cons.IH [OF d])
  also have "\<dots> = (case map_of (r # rows) k of None \<Rightarrow> m0 k | Some n \<Rightarrow> Some n)"
    using none by (cases r) (auto split: option.splits)
  finally show ?case .
qed

lemma fold_counts_backend:
  assumes "distinct (map fst (rows :: (string \<times> int) list))"
    and "\<forall>r \<in> set rows. \<exists>y. fst r = str_oid y"
  shows "fold (\<lambda>row m. case ObjectId (fst row) of None \<Rightarrow> m | Some x \<Rightarrow> m(x \<mapsto> snd row)) rows m0 x =
     (case map_of rows (str_oid x) of None \<Rightarrow> m0 x | Some n \<Rightarrow> Some n)"
  using assms
proof (induction rows arbitrary: m0)
  case Nil
  show ?case by simp
next
  case (Cons r rows)
  let ?f = "\<lambda>row m. case ObjectId (fst row) of None \<Rightarrow> m
                      | Some x \<Rightarrow> m(x \<mapsto> snd (row :: string \<times> int))"
  from Cons.prems have d: "distinct (map fst rows)" and nin: "fst r \<notin> fst ` set rows"
    and ys: "\<forall>r \<in> set rows. \<exists>y. fst r = str_oid y"
    by auto
  from Cons.prems(2) obtain y where y: "fst r = str_oid y"
    by auto
  from nin have none: "map_of rows (fst r) = None"
    by (simp add: map_of_eq_None_iff)
  have "fold ?f (r # rows) m0 x = fold ?f rows (m0(y \<mapsto> snd r)) x"
    by (simp add: y ObjectId_str_oid)
  also have "\<dots> = (case map_of rows (str_oid x) of None \<Rightarrow> (m0(y \<mapsto> snd r)) x | Some n \<Rightarrow> Some n)"
    by (rule Cons.IH [OF d ys])
  also have "\<dots> = (case map_of (r # rows) (str_oid x) of None \<Rightarrow> m0 x | Some n \<Rightarrow> Some n)"
    using none y by (cases r) (auto simp: str_oid_inject split: option.splits)
  finally show ?case .
qed

lemma fold_zero_counts:
  "fold (\<lambda>iid m. m(iid \<mapsto> (0::int))) ids m0 x = (if x \<in> set ids then Some 0 else m0 x)"
  by (induction ids arbitrary: m0) auto


lemma no_comment_count_0:
  "\<not> (\<exists>c \<in> set col. c_idea_id c = k) \<Longrightarrow> length (filter (\<lambda>c. c_idea_id c = k) col) = 0"
  by (induction col) auto

lemma backend_counts:
  assumes "x \<in> set ids"
  shows "get_or_0
      ((if ids \<noteq> []
        then fold (\<lambda>row m. case ObjectId (fst row) of None \<Rightarrow> m | Some x \<Rightarrow> m(x \<mapsto> snd row))
               (aggregate (map str_oid ids) col) (fold (\<lambda>iid m. m(iid \<mapsto> 0)) ids Map.empty)
        else fold (\<lambda>iid m. m(iid \<mapsto> 0)) ids Map.empty) x)
    = int (length (filter (\<lambda>c. c_idea_id c = str_oid x) col))"
proof -
  let ?rows = "aggregate (map str_oid ids) col"
  have ne: "ids \<noteq> []"
    using assms by auto
  have keys: "\<forall>r \<in> set ?rows. \<exists>y. fst r = str_oid y"
    using fst_aggregate [of _ "map str_oid ids" col] by auto
  have mem: "str_oid x \<in> set (map str_oid ids)"
    using assms by simp
  show ?thesis
  proof (cases "\<exists>c \<in> set col. c_idea_id c = str_oid x")
    case True
    then show ?thesis
      using ne mem
      by (simp add: fold_counts_backend [OF distinct_aggregate keys] map_of_aggregate get_or_0_def)
  next
    case False
    then show ?thesis
      using ne assms no_comment_count_0 [OF False]
      by (simp add: fold_counts_backend [OF distinct_aggregate keys] map_of_aggregate
          fold_zero_counts get_or_0_def)
  qed
qed

lemma root_counts:
  assumes "x \<in> set ids"
  shows "get_or_0
      ((if ids \<noteq> []
        then fold (\<lambda>row m. m(fst row \<mapsto> snd row)) (aggregate (map str_oid ids) col) Map.empty
        else Map.empty) (str_oid x))
    = int (length (filter (\<lambda>c. c_idea_id c = str_oid x) col))"
proof -
  have ne: "ids \<noteq> []"
    using assms by auto
  have mem: "str_oid x \<in> set (map str_oid ids)"
    using assms by simp
  show ?thesis
  proof (cases "\<exists>c \<in> set col. c_idea_id c = str_oid x")
    case True
    then show ?thesis
      using ne mem
      by (simp add: fold_counts_root [OF distinct_aggregate] map_of_aggregate get_or_0_def)
  next
    case False
    then show ?thesis
      using ne no_comment_count_0 [OF False]
      by (simp add: fold_counts_root [OF distinct_aggregate] map_of_aggregate get_or_0_def)
  qed
qed


lemma d_id_serialize_doc: "d_id (serialize_doc i) = str_oid (i_id i)"
  by (simp add: serialize_doc_def serialize_id_def)

lemma list_ideas_eq:
  "list_ideas now rng srt s =
     map IdeaOut
       ((if srt = Sort_votes then py_sort_reverse (\<lambda>x. (d_votes x, d_created_at x))
         else py_sort_reverse (\<lambda>x. (get_or_0 (d_comments_count x), d_created_at x)))
        (map (\<lambda>i. (serialize_id i)\<lparr>d_comments_count :=
                 Some (int (length (filter (\<lambda>c. c_idea_id c = str_oid (i_id i)) (comment s))))\<rparr>)
           (filter (\<lambda>i. rng = Range_all \<or>
                      (if rng = Range_month then now - timedelta_days 30 else now - timedelta_days 7)
                        \<le> i_created_at i) (idea s))))"
proof -
  define ideas where "ideas = filter (\<lambda>i. rng = Range_all \<or>
      (if rng = Range_month then now - timedelta_days 30 else now - timedelta_days 7)
        \<le> i_created_at i) (idea s)"
  have A: "(if rng \<noteq> Range_all
            then find_docs (\<lambda>i. (if rng = Range_month then now - timedelta_days 30
                               else now - timedelta_days 7) \<le> i_created_at i) (idea s)
            else find_docs (\<lambda>i. True) (idea s)) = ideas"
    by (simp add: find_docs_def ideas_def)
  have B: "map (\<lambda>i. (serialize_id i)\<lparr>d_comments_count := Some (get_or_0
        ((if map i_id ideas \<noteq> []
          then fold (\<lambda>row m. case ObjectId (fst row) of None \<Rightarrow> m | Some x \<Rightarrow> m(x \<mapsto> snd row))
                 (aggregate (map str_oid (map i_id ideas)) (comment s))
                 (fold (\<lambda>iid m. m(iid \<mapsto> 0)) (map i_id ideas) Map.empty)
          else fold (\<lambda>iid m. m(iid \<mapsto> 0)) (map i_id ideas) Map.empty) (i_id i)))\<rparr>) ideas
      = map (\<lambda>i. (serialize_id i)\<lparr>d_comments_count :=
                 Some (int (length (filter (\<lambda>c. c_idea_id c = str_oid (i_id i)) (comment s))))\<rparr>)
          ideas"
  proof (rule map_cong [OF refl])
    fix i assume "i \<in> set ideas"
    then have m: "i_id i \<in> set (map i_id ideas)"
      by simp
    show "(serialize_id i)\<lparr>d_comments_count := Some (get_or_0
        ((if map i_id ideas \<noteq> []
          then fold (\<lambda>row m. case ObjectId (fst row) of None \<Rightarrow> m | Some x \<Rightarrow> m(x \<mapsto> snd row))
                 (aggregate (map str_oid (map i_id ideas)) (comment s))
                 (fold (\<lambda>iid m. m(iid \<mapsto> 0)) (map i_id ideas) Map.empty)
          else fold (\<lambda>iid m. m(iid \<mapsto> 0)) (map i_id ideas) Map.empty) (i_id i)))\<rparr>
      = (serialize_id i)\<lparr>d_comments_count :=
                 Some (int (length (filter (\<lambda>c. c_idea_id c = str_oid (i_id i)) (comment s))))\<rparr>"
      by (simp only: backend_counts [OF m])
  qed
  have "list_ideas now rng srt s =
     map IdeaOut
       (if srt = Sort_votes
        then py_sort_reverse (\<lambda>x. (d_votes x, d_created_at x))
          (map (\<lambda>i. (serialize_id i)\<lparr>d_comments_count :=
                 Some (int (length (filter (\<lambda>c. c_idea_id c = str_oid (i_id i)) (comment s))))\<rparr>)
          ideas)
        else py_sort_reverse (\<lambda>x. (get_or_0 (d_comments_count x), d_created_at x))
          (map (\<lambda>i. (serialize_id i)\<lparr>d_comments_count :=
                 Some (int (length (filter (\<lambda>c. c_idea_id c = str_oid (i_id i)) (comment s))))\<rparr>)
          ideas))"
    unfolding list_ideas_def Let_def A B ..
  then show ?thesis
    unfolding ideas_def by simp
qed

lemma list_ideas_root_eq:
  "list_ideas_root now rng srt s =
     (if srt = ''comments'' then py_sort_reverse (\<lambda>x. get_or_0 (d_comments_count x))
      else py_sort_reverse d_votes)
       (map (\<lambda>i. (serialize_doc i)\<lparr>d_comments_count :=
                Some (int (length (filter (\<lambda>c. c_idea_id c = str_oid (i_id i)) (comment s))))\<rparr>)
          (filter (\<lambda>i. if rng = ''week'' then now - timedelta_days 7 \<le> i_created_at i
                       else if rng = ''month'' then now - timedelta_days 30 \<le> i_created_at i
                       else True) (idea s)))"
proof -
  define ideas where "ideas = filter (\<lambda>i. if rng = ''week'' then now - timedelta_days 7 \<le> i_created_at i
                       else if rng = ''month'' then now - timedelta_days 30 \<le> i_created_at i
                       else True) (idea s)"
  have A: "(if rng = ''week''
            then find_docs (\<lambda>i. now - timedelta_days 7 \<le> i_created_at i) (idea s)
            else if rng = ''month''
            then find_docs (\<lambda>i. now - timedelta_days 30 \<le> i_created_at i) (idea s)
            else find_docs (\<lambda>i. True) (idea s)) = ideas"
    by (simp add: find_docs_def ideas_def)
  have B: "map (\<lambda>i. (serialize_doc i)\<lparr>d_comments_count := Some (get_or_0
        ((if map i_id ideas \<noteq> []
          then fold (\<lambda>row m. m(fst row \<mapsto> snd row))
                 (aggregate (map str_oid (map i_id ideas)) (comment s)) Map.empty
          else Map.empty) (d_id (serialize_doc i))))\<rparr>) ideas
      = map (\<lambda>i. (serialize_doc i)\<lparr>d_comments_count :=
                 Some (int (length (filter (\<lambda>c. c_idea_id c = str_oid (i_id i)) (comment s))))\<rparr>)
          ideas"
  proof (rule map_cong [OF refl])
    fix i assume "i \<in> set ideas"
    then have m: "i_id i \<in> set (map i_id ideas)"
      by simp
    show "(serialize_doc i)\<lparr>d_comments_count := Some (get_or_0
        ((if map i_id ideas \<noteq> []
          then fold (\<lambda>row m. m(fst row \<mapsto> snd row))
                 (aggregate (map str_oid (map i_id ideas)) (comment s)) Map.empty
          else Map.empty) (d_id (serialize_doc i))))\<rparr>
      = (serialize_doc i)\<lparr>d_comments_count :=
                 Some (int (length (filter (\<lambda>c. c_idea_id c = str_oid (i_id i)) (comment s))))\<rparr>"
      by (simp only: d_id_serialize_doc root_counts [OF m])
  qed
  have "list_ideas_root now rng srt s =
     (if srt = ''comments''
      then py_sort_reverse (\<lambda>x. get_or_0 (d_comments_count x))
        (map (\<lambda>i. (serialize_doc i)\<lparr>d_comments_count :=
                 Some (int (length (filter (\<lambda>c. c_idea_id c = str_oid (i_id i)) (comment s))))\<rparr>)
          ideas)
      else py_sort_reverse d_votes
        (map (\<lambda>i. (serialize_doc i)\<lparr>d_comments_count :=
                 Some (int (length (filter (\<lambda>c. c_idea_id c = str_oid (i_id i)) (comment s))))\<rparr>)
          ideas))"
    unfolding list_ideas_root_def Let_def A B ..
  then show ?thesis
    unfolding ideas_def by simp
qed

lemma mset_list_ideas:
  "mset (list_ideas now rng srt s) =
     mset (map (\<lambda>i. IdeaOut ((serialize_id i)\<lparr>d_comments_count :=
                 Some (int (length (filter (\<lambda>c. c_idea_id c = str_oid (i_id i)) (comment s))))\<rparr>))
           (filter (\<lambda>i. rng = Range_all \<or>
                      (if rng = Range_month then now - timedelta_days 30 else now - timedelta_days 7)
                        \<le> i_created_at i) (idea s)))"
  by (cases srt) (simp_all add: list_ideas_eq mset_py_sort_reverse multiset.map_comp o_def)

lemma mset_list_ideas_root:
  "mset (list_ideas_root now rng srt s) =
     mset (map (\<lambda>i. (serialize_doc i)\<lparr>d_comments_count :=
                Some (int (length (filter (\<lambda>c. c_idea_id c = str_oid (i_id i)) (comment s))))\<rparr>)
          (filter (\<lambda>i. if rng = ''week'' then now - timedelta_days 7 \<le> i_created_at i
                       else if rng = ''month'' then now - timedelta_days 30 \<le> i_created_at i
                       else True) (idea s)))"
  by (simp add: list_ideas_root_eq mset_py_sort_reverse)

lemma IdeaOut_drop_count:
  "(IdeaOut ((serialize_id i)\<lparr>d_comments_count := Some n\<rparr>))\<lparr>o_comments_count := 0\<rparr>
     = IdeaOut (serialize_id i)"
  by (simp add: IdeaOut_def serialize_id_def)

lemma serialize_doc_drop_count:
  "((serialize_doc i)\<lparr>d_comments_count := Some n\<rparr>)\<lparr>d_comments_count := None\<rparr> = serialize_doc i"
  by (simp add: serialize_doc_def serialize_id_def)

lemma mset_list_ideas_docs:
  "mset (map (\<lambda>r. r\<lparr>o_comments_count := 0\<rparr>) (list_ideas now rng srt s)) =
     mset (map (\<lambda>i. IdeaOut (serialize_id i))
           (filter (\<lambda>i. rng = Range_all \<or>
                      (if rng = Range_month then now - timedelta_days 30 else now - timedelta_days 7)
                        \<le> i_created_at i) (idea s)))"
proof -
  have "mset (map (\<lambda>r. r\<lparr>o_comments_count := 0\<rparr>) (list_ideas now rng srt s))
      = image_mset (\<lambda>r. r\<lparr>o_comments_count := 0\<rparr>) (mset (list_ideas now rng srt s))"
    by simp
  also have "\<dots> = mset (map (\<lambda>i. IdeaOut (serialize_id i))
           (filter (\<lambda>i. rng = Range_all \<or>
                      (if rng = Range_month then now - timedelta_days 30 else now - timedelta_days 7)
                        \<le> i_created_at i) (idea s)))"
    unfolding mset_list_ideas
    by (simp add: IdeaOut_drop_count multiset.map_comp o_def)
  finally show ?thesis .
qed

lemma mset_list_ideas_root_docs:
  "mset (map (\<lambda>r. r\<lparr>d_comments_count := None\<rparr>) (list_ideas_root now rng srt s)) =
     mset (map serialize_doc
          (filter (\<lambda>i. if rng = ''week'' then now - timedelta_days 7 \<le> i_created_at i
                       else if rng = ''month'' then now - timedelta_days 30 \<le> i_created_at i
                       else True) (idea s)))"
proof -
  have "mset (map (\<lambda>r. r\<lparr>d_comments_count := None\<rparr>) (list_ideas_root now rng srt s))
      = image_mset (\<lambda>r. r\<lparr>d_comments_count := None\<rparr>) (mset (list_ideas_root now rng srt s))"
    by simp
  also have "\<dots> = mset (map serialize_doc
          (filter (\<lambda>i. if rng = ''week'' then now - timedelta_days 7 \<le> i_created_at i
                       else if rng = ''month'' then now - timedelta_days 30 \<le> i_created_at i
                       else True) (idea s)))"
    unfolding mset_list_ideas_root
    by (simp add: serialize_doc_drop_count multiset.map_comp o_def)
  finally show ?thesis .
qed

lemma set_list_ideas:
  "set (list_ideas now rng srt s) =
     (\<lambda>i. IdeaOut ((serialize_id i)\<lparr>d_comments_count :=
                 Some (int (length (filter (\<lambda>c. c_idea_id c = str_oid (i_id i)) (comment s))))\<rparr>))
       ` {i \<in> set (idea s). rng = Range_all \<or>
                      (if rng = Range_month then now - timedelta_days 30 else now - timedelta_days 7)
                        \<le> i_created_at i}"
  using mset_eq_setD [OF mset_list_ideas [of now rng srt s]] by simp

lemma set_list_ideas_root:
  "set (list_ideas_root now rng srt s) =
     (\<lambda>i. (serialize_doc i)\<lparr>d_comments_count :=
                Some (int (length (filter (\<lambda>c. c_idea_id c = str_oid (i_id i)) (comment s))))\<rparr>)
       ` {i \<in> set (idea s). if rng = ''week'' then now - timedelta_days 7 \<le> i_created_at i
                       else if rng = ''month'' then now - timedelta_days 30 \<le> i_created_at i
                       else True}"
  using mset_eq_setD [OF mset_list_ideas_root [of now rng srt s]] by simp







subsection \<open>Creating an idea whose title is white space (backend)\<close>

text \<open>
  Claim C10. In the backend variant the length bounds of an idea's title are checked on
  the title as it was sent, before it is trimmed: a title of 1 to 200 characters that
  are all white space passes validation, the idea is created, and the title that is stored
  and returned is the empty string.
\<close>

theorem whitespace_title_accepted:
  assumes "t \<noteq> []" and "length t \<le> 200" and "\<forall>c \<in> set t. isspace c"
    and "case d of None \<Rightarrow> True | Some x \<Rightarrow> length x \<le> 2000"
    and "new_id \<notin> i_id ` set (idea s)"
  shows "\<exists>r. post_ideas now new_id t d s =
           (Inr r, s\<lparr>idea := idea s @
              [\<lparr>i_id = new_id, i_title = [], i_description = strip_if_any d, i_votes = 0,
                i_created_at = now, i_updated_at = now\<rparr>]\<rparr>)
         \<and> o_title r = []"
proof -
  have len: "1 \<le> length t"
    using assms(1) by (cases t) simp_all
  have v: "validate_IdeaCreate t d = Inr \<lparr>ic_title = t, ic_description = d\<rparr>"
    using len assms(2,4) by (simp add: validate_IdeaCreate_def)
  show ?thesis
    using assms(3,5)
    by (simp add: post_ideas_def v create_idea_fresh strip_all_space IdeaOut_def serialize_id_def)
qed

theorem whitespace_title_accepted_witness:
  "\<exists>r. post_ideas 0 1 '' '' None \<lparr>idea = [], comment = []\<rparr> =
           (Inr r, \<lparr>idea = [\<lparr>i_id = 1, i_title = [], i_description = None, i_votes = 0,
                i_created_at = 0, i_updated_at = 0\<rparr>], comment = []\<rparr>)
         \<and> o_title r = []"
  using whitespace_title_accepted [of "'' ''" None 1 "\<lparr>idea = [], comment = []\<rparr>" 0]
  by (simp add: isspace_def strip_if_any_def)

subsection \<open>A comment on an idea that does not exist\<close>

text \<open>
  Claim C6. Creating a comment under an identifier that references no existing idea fails
  and leaves the store as it was, so the comment is not persisted; when the identifier is
  well formed the failure is NotFound (404). This holds in both variants.
\<close>

theorem add_comment_unknown_idea:
  assumes "\<forall>i \<in> set (idea s). ObjectId idea_id \<noteq> Some (i_id i)"
  shows "(\<exists>e. add_comment now new_id idea_id payload s = (Inl e, s))
       \<and> (\<exists>e. add_comment_root now new_id idea_id a c s = (Inl e, s))
       \<and> (ObjectId idea_id \<noteq> None \<longrightarrow>
            add_comment now new_id idea_id payload s = (Inl NotFound, s)
          \<and> add_comment_root now new_id idea_id a c s = (Inl NotFound, s)
          \<and> status_code NotFound = 404)"
proof (cases "ObjectId idea_id")
  case None
  then show ?thesis
    by (simp add: add_comment_def add_comment_root_def PyObjectId_validate_def)
next
  case (Some x)
  with assms have "x \<notin> i_id ` set (idea s)"
    by auto
  then have "find_one (\<lambda>i. i_id i = x) (idea s) = None"
    by (rule find_one_absent)
  with Some show ?thesis
    by (simp add: add_comment_def add_comment_root_def PyObjectId_validate_def NotFound_def)
qed

theorem add_comment_unknown_idea_witness:
  "add_comment 0 1 ''0000000000000000000000a1'' \<lparr>cc_author = None, cc_content = ''hi''\<rparr>
      \<lparr>idea = [], comment = []\<rparr> = (Inl NotFound, \<lparr>idea = [], comment = []\<rparr>)
   \<and> add_comment_root 0 1 ''0000000000000000000000a1'' None ''hi''
      \<lparr>idea = [], comment = []\<rparr> = (Inl NotFound, \<lparr>idea = [], comment = []\<rparr>)"
  using add_comment_unknown_idea [of "\<lparr>idea = [], comment = []\<rparr>" "''0000000000000000000000a1''"
    0 1 "\<lparr>cc_author = None, cc_content = ''hi''\<rparr>" None "''hi''"]
  by (simp add: ObjectId_def hex_val_def)

subsection \<open>Upvoting under a malformed identifier (backend)\<close>

text \<open>
  Claim C4. An upvote under a malformed identifier is to fail with InvalidId, a 400. The
  backend variant calls \<^verbatim>\<open>PyObjectId.validate\<close>, whose \<^verbatim>\<open>ValueError\<close> no handler
  catches: the identifier \<^verbatim>\<open>not-an-id\<close> is answered with 500, not with InvalidId.
\<close>

theorem upvote_idea_malformed_id:
  "upvote_idea now ''not-an-id'' s = (Inl (ValueError ''Invalid ObjectId''), s)
   \<and> status_code (ValueError ''Invalid ObjectId'') = 500
   \<and> ValueError ''Invalid ObjectId'' \<noteq> InvalidId"
  by (simp add: upvote_idea_def PyObjectId_validate_def ObjectId_def InvalidId_def)

subsection \<open>Creating an idea in the root variant\<close>

text \<open>
  Claim C5. Creation is to trim the title and the description and to reject a title that
  is empty or longer than 200 characters. The root variant does neither: on an empty store
  every title, the empty one and one of 201 characters among them, is accepted and stored
  as it was sent.
\<close>

theorem create_idea_root_accepts_any_title:
  "create_idea_root now new_id t d \<lparr>idea = [], comment = []\<rparr> =
     (Inr \<lparr>d_id = str_oid new_id, d_title = t, d_description = d, d_votes = 0,
           d_created_at = now, d_updated_at = now, d_comments_count = None\<rparr>,
      \<lparr>idea = [\<lparr>i_id = new_id, i_title = t, i_description = d, i_votes = 0,
                i_created_at = now, i_updated_at = now\<rparr>], comment = []\<rparr>)"
  by (simp add: create_idea_root_fresh serialize_doc_def serialize_id_def)

text \<open>
  Claim C9. The record returned by a successful creation is to have no votes, a comment
  count of 0 and equal timestamps. The record the root variant returns has no votes and
  equal timestamps, but no \<^verbatim>\<open>comments_count\<close> at all.
\<close>

theorem create_idea_root_no_comments_count:
  "\<exists>r s'. create_idea_root now new_id ''Dark mode'' (Some ''Add a dark theme'')
             \<lparr>idea = [], comment = []\<rparr> = (Inr r, s')
     \<and> d_votes r = 0 \<and> d_created_at r = d_updated_at r \<and> d_comments_count r = None
     \<and> d_comments_count r \<noteq> Some 0"
  by (simp add: create_idea_root_fresh serialize_doc_def serialize_id_def)

subsection \<open>The order of the listing in the root variant\<close>

text \<open>
  Claim C1. Ideas with equal votes are to be listed most recent first. The root variant
  sorts by votes alone, so ties stay in the order of the store: of A (5 votes, created at
  1), B (5 votes, created at 2) and C (3 votes, created at 3) it lists A before B, where
  the backend variant lists B, A, C.
\<close>

theorem list_ideas_root_keeps_store_order_on_ties:
  "map d_title (list_ideas_root now ''all'' ''votes''
     \<lparr>idea = [\<lparr>i_id = 1, i_title = ''A'', i_description = None, i_votes = 5,
                i_created_at = 1, i_updated_at = 1\<rparr>,
               \<lparr>i_id = 2, i_title = ''B'', i_description = None, i_votes = 5,
                i_created_at = 2, i_updated_at = 2\<rparr>,
               \<lparr>i_id = 3, i_title = ''C'', i_description = None, i_votes = 3,
                i_created_at = 3, i_updated_at = 3\<rparr>],
       comment = []\<rparr>) = [''A'', ''B'', ''C'']"
  by (simp add: list_ideas_root_def find_docs_def aggregate_def py_sort_reverse_def
      serialize_doc_def serialize_id_def get_or_0_def)

lemma list_ideas_breaks_ties_by_created_at_example:
  "map o_title (list_ideas now Range_all Sort_votes
     \<lparr>idea = [\<lparr>i_id = 1, i_title = ''A'', i_description = None, i_votes = 5,
                i_created_at = 1, i_updated_at = 1\<rparr>,
               \<lparr>i_id = 2, i_title = ''B'', i_description = None, i_votes = 5,
                i_created_at = 2, i_updated_at = 2\<rparr>,
               \<lparr>i_id = 3, i_title = ''C'', i_description = None, i_votes = 3,
                i_created_at = 3, i_updated_at = 3\<rparr>],
       comment = []\<rparr>) = [''B'', ''A'', ''C'']"
  by (simp add: list_ideas_def find_docs_def aggregate_def py_sort_reverse_def
      serialize_id_def get_or_0_def IdeaOut_def)

subsection \<open>The time range of the listing\<close>

text \<open>
  Claim C7. With the range \<^verbatim>\<open>week\<close> the listing returns exactly the ideas created at
  or after the current time less 7 days, with \<^verbatim>\<open>month\<close> exactly those created at or
  after the current time less 30 days, and with \<^verbatim>\<open>all\<close> every idea: comment counts
  aside, the returned records are, as a multiset, the serialised ideas that pass the
  filter. In particular the weekly listing returns no idea created 8 days ago and returns
  each idea created 6 days ago. This holds in both variants.
\<close>

theorem list_ideas_time_range:
  "mset (map (\<lambda>r. r\<lparr>o_comments_count := 0\<rparr>) (list_ideas now Range_week srt s)) =
     mset (map (\<lambda>i. IdeaOut (serialize_id i))
            (filter (\<lambda>i. now - timedelta_days 7 \<le> i_created_at i) (idea s)))
   \<and> mset (map (\<lambda>r. r\<lparr>o_comments_count := 0\<rparr>) (list_ideas now Range_month srt s)) =
     mset (map (\<lambda>i. IdeaOut (serialize_id i))
            (filter (\<lambda>i. now - timedelta_days 30 \<le> i_created_at i) (idea s)))
   \<and> mset (map (\<lambda>r. r\<lparr>o_comments_count := 0\<rparr>) (list_ideas now Range_all srt s)) =
     mset (map (\<lambda>i. IdeaOut (serialize_id i)) (idea s))
   \<and> mset (map (\<lambda>r. r\<lparr>d_comments_count := None\<rparr>) (list_ideas_root now ''week'' srt' s)) =
     mset (map serialize_doc (filter (\<lambda>i. now - timedelta_days 7 \<le> i_created_at i) (idea s)))
   \<and> mset (map (\<lambda>r. r\<lparr>d_comments_count := None\<rparr>) (list_ideas_root now ''month'' srt' s)) =
     mset (map serialize_doc (filter (\<lambda>i. now - timedelta_days 30 \<le> i_created_at i) (idea s)))
   \<and> mset (map (\<lambda>r. r\<lparr>d_comments_count := None\<rparr>) (list_ideas_root now ''all'' srt' s)) =
     mset (map serialize_doc (idea s))
   \<and> (\<forall>r \<in> set (list_ideas now Range_week srt s). o_created_at r \<noteq> now - timedelta_days 8)
   \<and> (\<forall>r \<in> set (list_ideas_root now ''week'' srt' s). d_created_at r \<noteq> now - timedelta_days 8)
   \<and> (\<forall>i \<in> set (idea s). i_created_at i = now - timedelta_days 6 \<longrightarrow>
        (\<exists>r \<in> set (list_ideas now Range_week srt s).
           o_id r = str_oid (i_id i) \<and> o_created_at r = i_created_at i)
      \<and> (\<exists>r \<in> set (list_ideas_root now ''week'' srt' s).
           d_id r = str_oid (i_id i) \<and> d_created_at r = i_created_at i))"
proof (intro conjI)
  show "mset (map (\<lambda>r. r\<lparr>o_comments_count := 0\<rparr>) (list_ideas now Range_week srt s)) =
     mset (map (\<lambda>i. IdeaOut (serialize_id i))
            (filter (\<lambda>i. now - timedelta_days 7 \<le> i_created_at i) (idea s)))"
    using mset_list_ideas_docs [of now Range_week srt s] by simp
  show "mset (map (\<lambda>r. r\<lparr>o_comments_count := 0\<rparr>) (list_ideas now Range_month srt s)) =
     mset (map (\<lambda>i. IdeaOut (serialize_id i))
            (filter (\<lambda>i. now - timedelta_days 30 \<le> i_created_at i) (idea s)))"
    using mset_list_ideas_docs [of now Range_month srt s] by simp
  show "mset (map (\<lambda>r. r\<lparr>o_comments_count := 0\<rparr>) (list_ideas now Range_all srt s)) =
     mset (map (\<lambda>i. IdeaOut (serialize_id i)) (idea s))"
    using mset_list_ideas_docs [of now Range_all srt s] by simp
  show "mset (map (\<lambda>r. r\<lparr>d_comments_count := None\<rparr>) (list_ideas_root now ''week'' srt' s)) =
     mset (map serialize_doc (filter (\<lambda>i. now - timedelta_days 7 \<le> i_created_at i) (idea s)))"
    using mset_list_ideas_root_docs [of now "''week''" srt' s] by simp
  show "mset (map (\<lambda>r. r\<lparr>d_comments_count := None\<rparr>) (list_ideas_root now ''month'' srt' s)) =
     mset (map serialize_doc (filter (\<lambda>i. now - timedelta_days 30 \<le> i_created_at i) (idea s)))"
    using mset_list_ideas_root_docs [of now "''month''" srt' s] by simp
  show "mset (map (\<lambda>r. r\<lparr>d_comments_count := None\<rparr>) (list_ideas_root now ''all'' srt' s)) =
     mset (map serialize_doc (idea s))"
    using mset_list_ideas_root_docs [of now "''all''" srt' s] by simp
  show "\<forall>r \<in> set (list_ideas now Range_week srt s). o_created_at r \<noteq> now - timedelta_days 8"
    by (auto simp: set_list_ideas IdeaOut_def serialize_id_def timedelta_days_def)
  show "\<forall>r \<in> set (list_ideas_root now ''week'' srt' s). d_created_at r \<noteq> now - timedelta_days 8"
    by (auto simp: set_list_ideas_root serialize_doc_def serialize_id_def timedelta_days_def)
  show "\<forall>i \<in> set (idea s). i_created_at i = now - timedelta_days 6 \<longrightarrow>
        (\<exists>r \<in> set (list_ideas now Range_week srt s).
           o_id r = str_oid (i_id i) \<and> o_created_at r = i_created_at i)
      \<and> (\<exists>r \<in> set (list_ideas_root now ''week'' srt' s).
           d_id r = str_oid (i_id i) \<and> d_created_at r = i_created_at i)"
  proof (intro ballI impI conjI)
    fix i assume i: "i \<in> set (idea s)" and t: "i_created_at i = now - timedelta_days 6"
    then have in7: "now - timedelta_days 7 \<le> i_created_at i"
      by (simp add: timedelta_days_def)
    let ?n = "int (length (filter (\<lambda>c. c_idea_id c = str_oid (i_id i)) (comment s)))"
    have "IdeaOut ((serialize_id i)\<lparr>d_comments_count := Some ?n\<rparr>) \<in> set (list_ideas now Range_week srt s)"
      unfolding set_list_ideas using i in7 by auto
    then show "\<exists>r \<in> set (list_ideas now Range_week srt s).
           o_id r = str_oid (i_id i) \<and> o_created_at r = i_created_at i"
      by (rule bexI [rotated]) (simp add: IdeaOut_def serialize_id_def)
    have "(serialize_doc i)\<lparr>d_comments_count := Some ?n\<rparr> \<in> set (list_ideas_root now ''week'' srt' s)"
      unfolding set_list_ideas_root using i in7 by auto
    then show "\<exists>r \<in> set (list_ideas_root now ''week'' srt' s).
           d_id r = str_oid (i_id i) \<and> d_created_at r = i_created_at i"
      by (rule bexI [rotated]) (simp add: serialize_doc_def serialize_id_def)
  qed
qed

theorem list_ideas_time_range_witness:
  "mset (map (\<lambda>r. r\<lparr>o_comments_count := 0\<rparr>)
      (list_ideas 864000000000 Range_week Sort_votes
         \<lparr>idea = [\<lparr>i_id = 1, i_title = ''old'', i_description = None, i_votes = 0,
                    i_created_at = 172800000000, i_updated_at = 172800000000\<rparr>,
                   \<lparr>i_id = 2, i_title = ''recent'', i_description = None, i_votes = 0,
                    i_created_at = 345600000000, i_updated_at = 345600000000\<rparr>],
           comment = []\<rparr>)) =
     {#IdeaOut (serialize_id \<lparr>i_id = 2, i_title = ''recent'', i_description = None, i_votes = 0,
                    i_created_at = 345600000000, i_updated_at = 345600000000\<rparr>)#}
   \<and> mset (map (\<lambda>r. r\<lparr>d_comments_count := None\<rparr>)
      (list_ideas_root 864000000000 ''week'' ''votes''
         \<lparr>idea = [\<lparr>i_id = 1, i_title = ''old'', i_description = None, i_votes = 0,
                    i_created_at = 172800000000, i_updated_at = 172800000000\<rparr>,
                   \<lparr>i_id = 2, i_title = ''recent'', i_description = None, i_votes = 0,
                    i_created_at = 345600000000, i_updated_at = 345600000000\<rparr>],
           comment = []\<rparr>)) =
     {#serialize_doc \<lparr>i_id = 2, i_title = ''recent'', i_description = None, i_votes = 0,
                    i_created_at = 345600000000, i_updated_at = 345600000000\<rparr>#}"
  using list_ideas_time_range [where now = 864000000000 and srt = Sort_votes and srt' = "''votes''"
      and s = "\<lparr>idea = [\<lparr>i_id = 1, i_title = ''old'', i_description = None, i_votes = 0,
                    i_created_at = 172800000000, i_updated_at = 172800000000\<rparr>,
                   \<lparr>i_id = 2, i_title = ''recent'', i_description = None, i_votes = 0,
                    i_created_at = 345600000000, i_updated_at = 345600000000\<rparr>],
           comment = []\<rparr>"]
  by (simp add: timedelta_days_def)

subsection \<open>The comments of an idea\<close>



subsection \<open>The comment count of a listed idea\<close>




end
